theory Spec2Isabelle
  imports Complex_Main
begin

section \<open>Numbers of the program\<close>

text \<open>
  The columns \<open>measured_weight\<close>, \<open>weight_gain\<close>, \<open>daily_weight_gain\<close> and
  \<open>weekly_weight_gain\<close> of \<open>babystat.py\<close> hold float64 values. The special values of
  IEEE 754 (not-a-number and the two infinities) and the rules by which numpy propagates
  them are modelled as they are; a finite value is idealised as an exact real, so
  rounding is not part of the model. The pandas "missing value" of a float column is
  \<open>NaN\<close>.
\<close>

datatype fl = NaN | PInf | NInf | Fin real

fun fl_neg :: "fl \<Rightarrow> fl" where
  "fl_neg NaN = NaN"
| "fl_neg PInf = NInf"
| "fl_neg NInf = PInf"
| "fl_neg (Fin a) = Fin (- a)"

fun fl_add :: "fl \<Rightarrow> fl \<Rightarrow> fl" where
  "fl_add NaN _ = NaN"
| "fl_add _ NaN = NaN"
| "fl_add PInf NInf = NaN"
| "fl_add NInf PInf = NaN"
| "fl_add PInf _ = PInf"
| "fl_add _ PInf = PInf"
| "fl_add NInf _ = NInf"
| "fl_add _ NInf = NInf"
| "fl_add (Fin a) (Fin b) = Fin (a + b)"

definition fl_sub :: "fl \<Rightarrow> fl \<Rightarrow> fl" where
  "fl_sub a b = fl_add a (fl_neg b)"

text \<open>The sign of a value; a zero counts as positive (the zeros that the program divides
  by come from integer differences, hence are \<open>+0.0\<close>).\<close>

fun fl_negative :: "fl \<Rightarrow> bool" where
  "fl_negative NInf = True"
| "fl_negative (Fin a) = (a < 0)"
| "fl_negative _ = False"

fun fl_is_zero :: "fl \<Rightarrow> bool" where
  "fl_is_zero (Fin a) = (a = 0)"
| "fl_is_zero _ = False"

definition fl_signed_inf :: "bool \<Rightarrow> fl" where
  "fl_signed_inf neg = (if neg then NInf else PInf)"

text \<open>
  Float multiplication and division as numpy perform them: no exception is raised;
  \<open>x / 0\<close> is an infinity with the sign of \<open>x\<close> for \<open>x \<noteq> 0\<close>, and \<open>0 / 0\<close>,
  \<open>inf / inf\<close>, \<open>0 * inf\<close> and every operation on \<open>NaN\<close> are \<open>NaN\<close>.
\<close>

fun fl_mul :: "fl \<Rightarrow> fl \<Rightarrow> fl" where
  "fl_mul NaN _ = NaN"
| "fl_mul _ NaN = NaN"
| "fl_mul (Fin a) (Fin b) = Fin (a * b)"
| "fl_mul a b =
     (if fl_is_zero a \<or> fl_is_zero b then NaN
      else fl_signed_inf (fl_negative a \<noteq> fl_negative b))"

fun fl_div :: "fl \<Rightarrow> fl \<Rightarrow> fl" where
  "fl_div NaN _ = NaN"
| "fl_div _ NaN = NaN"
| "fl_div (Fin a) (Fin b) =
     (if b = 0 then (if a = 0 then NaN else fl_signed_inf (a < 0)) else Fin (a / b))"
| "fl_div (Fin a) _ = Fin 0"
| "fl_div a (Fin b) = fl_signed_inf (fl_negative a \<noteq> (b < 0))"
| "fl_div _ _ = NaN"

text \<open>The comparison \<open>a > b\<close> of two floats; it is false as soon as one side is \<open>NaN\<close>.\<close>

fun fl_gt :: "fl \<Rightarrow> fl \<Rightarrow> bool" where
  "fl_gt NaN _ = False"
| "fl_gt _ NaN = False"
| "fl_gt PInf b = (b \<noteq> PInf)"
| "fl_gt NInf _ = False"
| "fl_gt (Fin a) PInf = False"
| "fl_gt (Fin a) NInf = True"
| "fl_gt (Fin a) (Fin b) = (b < a)"

text \<open>Python's builtin \<open>sum\<close>: a left fold of \<open>+\<close> that starts from \<open>0\<close>.\<close>

definition py_sum :: "fl list \<Rightarrow> fl" where
  "py_sum xs = foldl fl_add (Fin 0) xs"

section \<open>Errors and positional indexing\<close>

text \<open>
  The exceptions of the program. \<open>LookupError\<close> stands for the error of a failed read by
  label: pandas raises \<open>KeyError\<close> or \<open>IndexError\<close> there, depending on its version, and
  both are lookup errors of Python. \<open>IndexError\<close> is the error of a position out of bounds.
\<close>

datatype py_error = ValueError | LookupError | IndexError

text \<open>
  \<open>Child.__init__\<close> (lines 35-48): the two genders select the table to download, any
  other value raises \<open>ValueError\<close>. The download itself is outside the model.
\<close>

definition growth_data_url :: "string \<Rightarrow> py_error + string" where
  "growth_data_url gender =
     (if gender = ''male''
        then Inr ''http://www.who.int/childgrowth/standards/wfa_boys_z_exp.txt''
      else if gender = ''female''
        then Inr ''http://www.who.int/childgrowth/standards/wfa_girls_z_exp.txt''
      else Inl ValueError)"

text \<open>
  \<open>frame.iloc[k]\<close> reads a row by position: a negative \<open>k\<close> counts from the end, and a
  position outside \<open>-n \<dots> n-1\<close> raises \<open>IndexError\<close>.
\<close>

definition iloc :: "'a list \<Rightarrow> int \<Rightarrow> py_error + 'a" where
  "iloc xs k =
     (let n = int (length xs); j = (if k < 0 then n + k else k)
      in if 0 \<le> j \<and> j < n then Inr (xs ! nat j) else Inl IndexError)"

text \<open>
  \<open>column[i]\<close> on a column of a frame read from a file (its index is \<open>0 \<dots> n-1\<close>): the
  entry \<open>i\<close> when there is one, a lookup error otherwise.
\<close>

definition getitem :: "'a list \<Rightarrow> nat \<Rightarrow> py_error + 'a" where
  "getitem xs i = (if i < length xs then Inr (xs ! i) else Inl LookupError)"

section \<open>The weight data frame\<close>

text \<open>
  A data frame is the record of its columns, all of one length. A date is the number of
  its day (the file holds whole days, format \<open>%Y-%m-%d\<close>), so the time delta
  \<open>life_days\<close> and its \<open>.days\<close> are both integers.
\<close>

record weight_data =
  date :: "int list"
  measured_weight :: "fl list"
  life_days :: "int list"
  measurement_days :: "int list"
  weight_gain :: "fl list"
  daily_weight_gain :: "fl list"
  weekly_weight_gain :: "fl list"

text \<open>\<open>Series.diff()\<close>: the first entry is missing, entry \<open>i\<close> is \<open>x\<^sub>i - x\<^sub>i\<^sub>-\<^sub>1\<close>.\<close>

definition series_diff :: "fl list \<Rightarrow> fl list" where
  "series_diff xs =
     (case xs of [] \<Rightarrow> [] | _ # rest \<Rightarrow> NaN # map2 (\<lambda>prev cur. fl_sub cur prev) xs rest)"

text \<open>\<open>np.diff\<close> on the integer days, and \<open>np.insert(a, 0, 0)\<close>.\<close>

definition np_diff :: "int list \<Rightarrow> int list" where
  "np_diff xs = map2 (\<lambda>prev cur. cur - prev) xs (tl xs)"

definition np_insert0 :: "int list \<Rightarrow> int list" where
  "np_insert0 xs = 0 # xs"

text \<open>Lines 110-112: \<open>weight_gain / np.insert(np.diff(measurement_days), 0, 0) * 7\<close>,
  element by element, with no test of the denominator.\<close>

definition daily_rate :: "fl \<Rightarrow> int \<Rightarrow> fl" where
  "daily_rate g d = fl_mul (fl_div g (Fin (of_int d))) (Fin 7)"

definition daily_gains :: "fl list \<Rightarrow> int list \<Rightarrow> fl list" where
  "daily_gains gains days = map2 daily_rate gains (np_insert0 (np_diff days))"

text \<open>
  Line 122: \<open>weight_data.set_index('life_days').loc[begin_date:end_date]\<close>. On an index in
  ascending order (the precondition of the import: the file is in chronological order) a
  label slice keeps the rows whose label lies between the two bounds, both included. The
  function returns the \<open>weight_gain\<close> column of that subset.
\<close>

definition subset_gains :: "int list \<Rightarrow> fl list \<Rightarrow> int \<Rightarrow> int \<Rightarrow> fl list" where
  "subset_gains days gains begin_date end_date =
     map snd (filter (\<lambda>(d, g). begin_date \<le> d \<and> d \<le> end_date) (zip days gains))"

text \<open>\<open>frame.iloc[i - 1]\<close> inside the loop over \<open>range(len(frame))\<close>: at \<open>i = 0\<close> the position
  is \<open>-1\<close>, the last row.\<close>

definition iloc_before :: "'a list \<Rightarrow> nat \<Rightarrow> 'a" where
  "iloc_before xs i = (if i = 0 then last xs else xs ! (i - 1))"

text \<open>The subset of the row at position \<open>i\<close> (lines 118-122), the test of lines 124-127, and
  the body of the loop of lines 117-131.\<close>

definition window_gains :: "int list \<Rightarrow> fl list \<Rightarrow> nat \<Rightarrow> fl list" where
  "window_gains days gains i =
     (let begin_date = days ! i - 6; end_date = days ! i
      in subset_gains days gains begin_date end_date)"

definition sparse_fallback :: "int list \<Rightarrow> fl list \<Rightarrow> nat \<Rightarrow> bool" where
  "sparse_fallback days gains i =
     (length (window_gains days gains i) = 1 \<and> days ! i - iloc_before days i > 6)"

definition weekly_entry :: "int list \<Rightarrow> fl list \<Rightarrow> fl list \<Rightarrow> nat \<Rightarrow> fl" where
  "weekly_entry days gains daily i =
     (if sparse_fallback days gains i then daily ! i
      else py_sum (window_gains days gains i))"

definition weekly_gains :: "int list \<Rightarrow> fl list \<Rightarrow> fl list \<Rightarrow> fl list" where
  "weekly_gains days gains daily = map (weekly_entry days gains daily) [0..<length days]"

text \<open>
  \<open>Child.import_weight_data\<close> (lines 91-135) on the rows of the file, each a date and a
  weight. Line 99 reads \<open>weight_data['date'][0]\<close>; the program does not test for a frame
  without rows, on which this read fails.
\<close>

definition import_weight_data :: "(int \<times> fl) list \<Rightarrow> py_error + weight_data" where
  "import_weight_data rows =
     (let dates = map fst rows;
          weights = map snd rows
      in case getitem dates 0 of
           Inl e \<Rightarrow> Inl e
         | Inr first_date \<Rightarrow>
             (let life = map (\<lambda>d. d - first_date) dates;
                  days = life;
                  gains = series_diff weights;
                  daily = daily_gains gains days;
                  weekly = weekly_gains days gains daily
              in Inr \<lparr> date = dates, measured_weight = weights, life_days = life,
                       measurement_days = days, weight_gain = gains,
                       daily_weight_gain = daily, weekly_weight_gain = weekly \<rparr>))"

section \<open>The percentile of the most recent weight\<close>

text \<open>A row of the WHO table, with the columns the program reads.\<close>

record growth_row =
  Day :: int
  SD0 :: fl
  SD1 :: fl
  SD1neg :: fl
  SD2 :: fl
  SD2neg :: fl
  SD3 :: fl
  SD3neg :: fl

text \<open>
  The cumulative distribution function of the standard normal distribution,
  \<open>(1 + erf (z / sqrt 2)) / 2\<close>, with the error function given by its power series
  \<open>erf x = 2 / sqrt pi * (\<Sum>m. (-1)^m * x^(2m+1) / (m! * (2m+1)))\<close>.
\<close>

definition erf_coeff :: "nat \<Rightarrow> real" where
  "erf_coeff n =
     (if even n then 0
      else (- 1) ^ ((n - 1) div 2) / (fact ((n - 1) div 2) * of_nat n))"

definition erf_series :: "real \<Rightarrow> real" where
  "erf_series x = (\<Sum>n. erf_coeff n * x ^ n)"

definition erf :: "real \<Rightarrow> real" where
  "erf x = 2 / sqrt pi * erf_series x"

definition std_normal_cdf :: "real \<Rightarrow> real" where
  "std_normal_cdf z = (1 + erf (z / sqrt 2)) / 2"

text \<open>
  The float64 value that the library computes for the standard normal distribution
  function (\<open>scipy.special.ndtr\<close>). It lies in \<open>[0, 1]\<close> and it saturates: from \<open>z = 9\<close> on
  it is exactly \<open>1.0\<close> and up to \<open>z = -39\<close> it is exactly \<open>0.0\<close>, the exact value being
  closer to \<open>1\<close>, respectively to \<open>0\<close>, than float64 resolves. In between, the finite
  result is idealised as the exact value. Hence the function is increasing, but not
  strictly increasing.
\<close>

definition ndtr :: "real \<Rightarrow> real" where
  "ndtr z =
     (if 9 \<le> z then 1
      else if z \<le> - 39 then 0
      else min 1 (max 0 (std_normal_cdf z)))"

text \<open>
  \<open>scipy.stats.norm.cdf(x, loc, scale)\<close>: the argument is standardised to
  \<open>z = (x - loc) / scale\<close>; the result is \<open>NaN\<close> unless \<open>scale > 0\<close> and \<open>z\<close> is a number,
  it is \<open>1\<close> at \<open>z = inf\<close>, \<open>0\<close> at \<open>z = -inf\<close>, and the standard normal distribution
  function of \<open>z\<close> otherwise. No exception is raised.
\<close>

definition norm_cdf :: "fl \<Rightarrow> fl \<Rightarrow> fl \<Rightarrow> fl" where
  "norm_cdf x loc scale =
     (let z = fl_div (fl_sub x loc) scale
      in if \<not> fl_gt scale (Fin 0) then NaN
         else case z of
                NaN \<Rightarrow> NaN
              | PInf \<Rightarrow> Fin 1
              | NInf \<Rightarrow> Fin 0
              | Fin r \<Rightarrow> Fin (ndtr r))"

text \<open>
  \<open>Child.calculate_child_percentiles\<close> (lines 206-218). \<open>growth_data\<close> is the WHO table
  of the child, \<open>frame.iloc[k]['c']\<close> is entry \<open>k\<close> of column \<open>c\<close>.
\<close>

definition calculate_child_percentiles ::
    "growth_row list \<Rightarrow> weight_data \<Rightarrow> fl \<Rightarrow> py_error + fl" where
  "calculate_child_percentiles growth_data child_weight_data weight_offset =
     (case iloc (life_days child_weight_data) (- 1) of
        Inl e \<Rightarrow> Inl e
      | Inr most_recent_day \<Rightarrow>
          (case iloc growth_data most_recent_day of
             Inl e \<Rightarrow> Inl e
           | Inr row \<Rightarrow>
               (let loc = SD0 row;
                    scale = fl_sub (SD0 row) (SD1neg row)
                in case iloc (measured_weight child_weight_data) (- 1) of
                     Inl e \<Rightarrow> Inl e
                   | Inr w \<Rightarrow> Inr (norm_cdf w (fl_add loc weight_offset) scale))))"

section \<open>The weekly gain as the specification words it\<close>

text \<open>
  The window \<open>W\<close> of sample \<open>i\<close> is the sub-sequence of the samples whose age lies in
  \<open>[age\<^sub>i - 6, age\<^sub>i]\<close>. If \<open>W\<close> has one element and the sample before \<open>i\<close> is more than
  six days older, the weekly gain is the daily rate of \<open>i\<close>; otherwise it is the sum of
  the gains over \<open>W\<close>.
\<close>

definition spec_window :: "int list \<Rightarrow> nat \<Rightarrow> nat list" where
  "spec_window ages i =
     filter (\<lambda>j. ages ! i - 6 \<le> ages ! j \<and> ages ! j \<le> ages ! i) [0..<length ages]"


section \<open>Columns of the imported frame\<close>

lemma import_weight_data_Inr:
  assumes "rows \<noteq> []"
  shows "\<exists>df. import_weight_data rows = Inr df"
  using assms by (cases rows) (simp_all add: import_weight_data_def getitem_def Let_def)

lemma import_weight_data_columns:
  assumes "import_weight_data rows = Inr df"
  shows "rows \<noteq> []"
    and "date df = map fst rows"
    and "measured_weight df = map snd rows"
    and "life_days df = map (\<lambda>d. d - fst (hd rows)) (map fst rows)"
    and "measurement_days df = life_days df"
    and "weight_gain df = series_diff (measured_weight df)"
    and "daily_weight_gain df = daily_gains (weight_gain df) (measurement_days df)"
    and "weekly_weight_gain df =
           weekly_gains (measurement_days df) (weight_gain df) (daily_weight_gain df)"
  using assms by (cases rows; auto simp: import_weight_data_def getitem_def Let_def)+

lemma length_series_diff [simp]: "length (series_diff xs) = length xs"
  by (cases xs) (simp_all add: series_diff_def)

lemma length_np_diff [simp]: "length (np_diff xs) = length xs - 1"
  by (simp add: np_diff_def)

lemma length_daily_gains [simp]:
  "length gains = length days \<Longrightarrow> length (daily_gains gains days) = length days"
  by (cases days) (simp_all add: daily_gains_def np_insert0_def)

lemma length_weekly_gains [simp]: "length (weekly_gains days gains daily) = length days"
  by (simp add: weekly_gains_def)

lemma series_diff_0: "xs \<noteq> [] \<Longrightarrow> series_diff xs ! 0 = NaN"
  by (cases xs) (simp_all add: series_diff_def)

lemma series_diff_Suc:
  "Suc i < length xs \<Longrightarrow> series_diff xs ! Suc i = fl_sub (xs ! Suc i) (xs ! i)"
  by (cases xs) (simp_all add: series_diff_def)

lemma np_diff_nth: "Suc i < length xs \<Longrightarrow> np_diff xs ! i = xs ! Suc i - xs ! i"
  by (simp add: np_diff_def nth_tl)

lemma daily_gains_0:
  "gains \<noteq> [] \<Longrightarrow> daily_gains gains days ! 0 = daily_rate (gains ! 0) 0"
  by (cases gains) (simp_all add: daily_gains_def np_insert0_def)

lemma daily_gains_Suc:
  "Suc i < length days \<Longrightarrow> length gains = length days \<Longrightarrow>
   daily_gains gains days ! Suc i = daily_rate (gains ! Suc i) (days ! Suc i - days ! i)"
  by (simp add: daily_gains_def np_insert0_def np_diff_nth)

lemma daily_rate_NaN [simp]: "daily_rate NaN d = NaN"
  by (simp add: daily_rate_def)

lemma foldl_fl_add_NaN [simp]: "foldl fl_add NaN xs = NaN"
  by (induction xs) simp_all

lemma fl_add_NaN_right [simp]: "fl_add a NaN = NaN"
  by (cases a) simp_all

lemma foldl_fl_add_mem_NaN: "NaN \<in> set xs \<Longrightarrow> foldl fl_add a xs = NaN"
  by (induction xs arbitrary: a) auto

lemma py_sum_mem_NaN: "NaN \<in> set xs \<Longrightarrow> py_sum xs = NaN"
  by (simp add: py_sum_def foldl_fl_add_mem_NaN)

lemma zip_as_map_upt:
  "length xs = length ys \<Longrightarrow> zip xs ys = map (\<lambda>j. (xs ! j, ys ! j)) [0..<length xs]"
  by (rule nth_equalityI) simp_all

lemma subset_gains_indices:
  assumes "length gains = length days"
  shows "subset_gains days gains b e =
         map (\<lambda>j. gains ! j) (filter (\<lambda>j. b \<le> days ! j \<and> days ! j \<le> e) [0..<length days])"
  using assms
  by (simp add: subset_gains_def zip_as_map_upt [of days gains] filter_map comp_def)

lemma window_gains_spec:
  assumes "length gains = length days"
  shows "window_gains days gains i = map (\<lambda>j. gains ! j) (spec_window days i)"
  using assms by (simp add: window_gains_def spec_window_def subset_gains_indices)

lemma import_weight_data_lengths:
  assumes "import_weight_data rows = Inr df"
  shows "length (measurement_days df) = length rows"
    and "length (weight_gain df) = length rows"
    and "length (daily_weight_gain df) = length rows"
    and "length (weekly_weight_gain df) = length rows"
  using import_weight_data_columns [OF assms] by simp_all

lemma measurement_days_nth:
  assumes "import_weight_data rows = Inr df" and "i < length rows"
  shows "measurement_days df ! i = fst (rows ! i) - fst (rows ! 0)"
  using import_weight_data_columns [OF assms(1)] assms(2) by (simp add: hd_conv_nth)

lemma measurement_days_sorted:
  assumes "import_weight_data rows = Inr df" and "sorted (map fst rows)"
    and "i \<le> j" and "j < length rows"
  shows "measurement_days df ! i \<le> measurement_days df ! j"
proof -
  have "map fst rows ! i \<le> map fst rows ! j"
    using assms(2-4) by (intro sorted_nth_mono) simp_all
  then show ?thesis
    using assms by (simp add: measurement_days_nth)
qed

lemma first_row_no_gap:
  assumes "import_weight_data rows = Inr df" and "sorted (map fst rows)"
  shows "measurement_days df ! 0 - iloc_before (measurement_days df) 0 \<le> 0"
proof -
  have ne: "rows \<noteq> []" using import_weight_data_columns(1) [OF assms(1)] .
  have len: "length (measurement_days df) = length rows"
    using import_weight_data_lengths(1) [OF assms(1)] .
  have "measurement_days df ! 0 \<le> measurement_days df ! (length rows - 1)"
    using ne by (intro measurement_days_sorted [OF assms]) simp_all
  moreover have "measurement_days df \<noteq> []"
    using ne len by auto
  then have "last (measurement_days df) = measurement_days df ! (length rows - 1)"
    using len by (simp add: last_conv_nth)
  ultimately show ?thesis by (simp add: iloc_before_def)
qed

lemma spec_window_self:
  "i < length ages \<Longrightarrow> i \<in> set (spec_window ages i)"
  by (simp add: spec_window_def)

lemma weekly_gains_nth:
  "i < length days \<Longrightarrow> weekly_gains days gains daily ! i = weekly_entry days gains daily i"
  by (simp add: weekly_gains_def)

section \<open>Derived columns of the first sample\<close>

text \<open>
  Claim C9. For every non-empty input sequence (in chronological order, as the import
  requires), the import returns a frame in which the gain and the daily rate of the first
  sample are the missing value \<open>NaN\<close>; neither is zero.
\<close>

theorem first_gain_missing:
  assumes "rows \<noteq> []" and "sorted (map fst rows)"
  shows "\<exists>df. import_weight_data rows = Inr df \<and>
           weight_gain df ! 0 = NaN \<and> daily_weight_gain df ! 0 = NaN \<and>
           weight_gain df ! 0 \<noteq> Fin 0 \<and> daily_weight_gain df ! 0 \<noteq> Fin 0"
proof -
  obtain df where df: "import_weight_data rows = Inr df"
    using import_weight_data_Inr [OF assms(1)] by blast
  note cols = import_weight_data_columns [OF df]
  have g0: "weight_gain df ! 0 = NaN"
    using assms(1) by (simp add: cols(6) cols(3) series_diff_0)
  have "weight_gain df \<noteq> []"
    using assms(1) import_weight_data_lengths(2) [OF df] by auto
  then have "daily_weight_gain df ! 0 = daily_rate (weight_gain df ! 0) 0"
    unfolding cols(7) by (rule daily_gains_0)
  then have d0: "daily_weight_gain df ! 0 = NaN"
    by (simp add: g0)
  show ?thesis using df g0 d0 by simp
qed

theorem first_gain_missing_witness:
  "\<exists>df. import_weight_data [(0, Fin 4), (7, Fin (43 / 10))] = Inr df \<and>
        weight_gain df ! 0 = NaN \<and> daily_weight_gain df ! 0 = NaN \<and>
        weight_gain df ! 0 \<noteq> Fin 0 \<and> daily_weight_gain df ! 0 \<noteq> Fin 0"
  using first_gain_missing [of "[(0, Fin 4), (7, Fin (43 / 10))]"] by simp

text \<open>
  Claim C10. For every non-empty input sequence in chronological order, the test of the
  sparse-sampling fallback fails at index 0: the row before index 0 is read as the last
  row, so the age gap is at most 0 and never exceeds 6. The weekly gain of the first
  sample is therefore the sum over its window, which holds the missing gain of sample 0,
  and that sum is \<open>NaN\<close>.
\<close>

theorem first_weekly_gain_missing:
  assumes "rows \<noteq> []" and "sorted (map fst rows)"
  shows "\<exists>df. import_weight_data rows = Inr df \<and>
           measurement_days df ! 0 - iloc_before (measurement_days df) 0 \<le> 6 \<and>
           \<not> sparse_fallback (measurement_days df) (weight_gain df) 0 \<and>
           NaN \<in> set (window_gains (measurement_days df) (weight_gain df) 0) \<and>
           weekly_weight_gain df ! 0 = NaN"
proof -
  obtain df where df: "import_weight_data rows = Inr df"
    using import_weight_data_Inr [OF assms(1)] by blast
  note cols = import_weight_data_columns [OF df]
  note lens = import_weight_data_lengths [OF df]
  let ?days = "measurement_days df" and ?gains = "weight_gain df"
  have pos: "0 < length ?days" using assms(1) lens(1) by simp
  have gap: "?days ! 0 - iloc_before ?days 0 \<le> 0"
    using first_row_no_gap [OF df assms(2)] .
  then have nofb: "\<not> sparse_fallback ?days ?gains 0"
    by (simp add: sparse_fallback_def)
  have g0: "?gains ! 0 = NaN"
    using assms(1) by (simp add: cols(6) cols(3) series_diff_0)
  have win: "window_gains ?days ?gains 0 = map (\<lambda>j. ?gains ! j) (spec_window ?days 0)"
    using lens by (intro window_gains_spec) simp
  have "?gains ! 0 \<in> set (window_gains ?days ?gains 0)"
    unfolding win using spec_window_self [OF pos] by (simp only: set_map image_eqI)
  then have mem: "NaN \<in> set (window_gains ?days ?gains 0)"
    by (simp only: g0)
  have "weekly_weight_gain df ! 0 = weekly_entry ?days ?gains (daily_weight_gain df) 0"
    using pos by (simp only: cols(8) weekly_gains_nth)
  also have "\<dots> = py_sum (window_gains ?days ?gains 0)"
    using nofb by (simp add: weekly_entry_def)
  also have "\<dots> = NaN"
    using mem by (rule py_sum_mem_NaN)
  finally show ?thesis using df gap nofb mem by simp
qed

theorem first_weekly_gain_missing_witness:
  "\<exists>df. import_weight_data [(0, Fin 4), (3, Fin 5), (20, Fin 6)] = Inr df \<and>
        measurement_days df ! 0 - iloc_before (measurement_days df) 0 \<le> 6 \<and>
        \<not> sparse_fallback (measurement_days df) (weight_gain df) 0 \<and>
        NaN \<in> set (window_gains (measurement_days df) (weight_gain df) 0) \<and>
        weekly_weight_gain df ! 0 = NaN"
  using first_weekly_gain_missing [of "[(0, Fin 4), (3, Fin 5), (20, Fin 6)]"] by simp

section \<open>The weekly gain\<close>



section \<open>The empty input\<close>

text \<open>
  Claim C7, as amended. For the empty input sequence the import fails and returns no
  frame. The program has no test for emptiness: the failure is the error of reading
  row 0 of the empty date column, which is not the \<open>ValueError\<close> of an invalid argument.
\<close>

theorem empty_import_fails:
  "(\<exists>e. import_weight_data [] = Inl e \<and> e \<noteq> ValueError) \<and>
   (\<nexists>df. import_weight_data [] = Inr df)"
  by (simp add: import_weight_data_def getitem_def)

text \<open>
  The error that the program raises for an invalid argument is \<open>ValueError\<close>, as for a
  gender that is neither male nor female; the empty input does not fail with it.
\<close>

theorem empty_import_not_ValueError:
  "growth_data_url ''child'' = Inl ValueError \<and>
   import_weight_data [] \<noteq> Inl ValueError"
  by (simp add: growth_data_url_def import_weight_data_def getitem_def)

section \<open>The scenario of three weekly samples\<close>

lemmas import_unfold =
  import_weight_data_def getitem_def series_diff_def fl_sub_def daily_gains_def np_diff_def
  np_insert0_def daily_rate_def weekly_gains_def weekly_entry_def sparse_fallback_def
  window_gains_def subset_gains_def iloc_before_def py_sum_def fl_signed_inf_def

lemma upt_3: "[0..<3] = [0, 1, 2]" and upt_2: "[0..<2] = [0, 1]"
  by (simp_all add: upt_rec)

text \<open>
  Claim C2, as amended. For the samples \<open>[(day 0, 4.0), (day 7, 4.3), (day 14, 4.3)]\<close> the
  import yields the gains \<open>[NaN, 0.3, 0.0]\<close>, the daily rates \<open>[NaN, 0.3, 0.0]\<close>, the
  weekly gain \<open>0.3\<close> at index 1 and the weekly gain \<open>0.0\<close> at index 2: the window
  \<open>[8, 14]\<close> of index 2 holds sample 2 alone and the sample before it is 7 days older, so
  the weekly gain is the daily rate of sample 2.
\<close>

theorem scenario_frame:
  "import_weight_data [(b, Fin 4), (b + 7, Fin (43 / 10)), (b + 14, Fin (43 / 10))] =
     Inr \<lparr> date = [b, b + 7, b + 14],
           measured_weight = [Fin 4, Fin (43 / 10), Fin (43 / 10)],
           life_days = [0, 7, 14],
           measurement_days = [0, 7, 14],
           weight_gain = [NaN, Fin (3 / 10), Fin 0],
           daily_weight_gain = [NaN, Fin (3 / 10), Fin 0],
           weekly_weight_gain = [NaN, Fin (3 / 10), Fin 0] \<rparr>"
  by (simp add: import_unfold upt_3 Let_def)

text \<open>The weekly column of the scenario, and its entry at index 2, which is not \<open>0.3\<close>.\<close>

theorem scenario_weekly_gain_counterexample:
  "map_sum id weekly_weight_gain
     (import_weight_data [(0, Fin 4), (7, Fin (43 / 10)), (14, Fin (43 / 10))]) =
       Inr [NaN, Fin (3 / 10), Fin 0] \<and>
   [NaN, Fin (3 / 10), Fin 0] ! 2 \<noteq> Fin (3 / 10)"
  by (simp add: import_unfold upt_3 Let_def)

section \<open>Two samples on one day\<close>

lemma daily_rate_zero_gap:
  "daily_rate g 0 =
     (case g of NaN \<Rightarrow> NaN | PInf \<Rightarrow> PInf | NInf \<Rightarrow> NInf
      | Fin a \<Rightarrow> if a = 0 then NaN else if a < 0 then NInf else PInf)"
  by (cases g) (simp_all add: daily_rate_def fl_signed_inf_def)

text \<open>
  Claim C3, as amended. For every derived series with two consecutive samples \<open>i - 1\<close> and
  \<open>i\<close> of the same age, the daily rate at \<open>i\<close> is computed by the same unguarded float
  division as at every other index, \<open>gain\<^sub>i / 0 * 7\<close>: no error is raised, and the result
  is \<open>+inf\<close> for a positive gain, \<open>-inf\<close> for a negative gain and \<open>NaN\<close> for a zero or
  missing gain.
\<close>

theorem same_day_daily_rate:
  assumes "import_weight_data rows = Inr df" and "sorted (map fst rows)"
    and "0 < i" and "i < length rows"
    and "measurement_days df ! i - measurement_days df ! (i - 1) = 0"
  shows "daily_weight_gain df ! i = fl_mul (fl_div (weight_gain df ! i) (Fin 0)) (Fin 7) \<and>
         daily_weight_gain df ! i =
           (case weight_gain df ! i of NaN \<Rightarrow> NaN | PInf \<Rightarrow> PInf | NInf \<Rightarrow> NInf
            | Fin a \<Rightarrow> if a = 0 then NaN else if a < 0 then NInf else PInf)"
proof -
  note cols = import_weight_data_columns [OF assms(1)]
  note lens = import_weight_data_lengths [OF assms(1)]
  obtain k where k: "i = Suc k" using assms(3) by (cases i) simp_all
  have "daily_weight_gain df ! Suc k =
          daily_rate (weight_gain df ! Suc k)
            (measurement_days df ! Suc k - measurement_days df ! k)"
    unfolding cols(7) using assms(4) lens k by (intro daily_gains_Suc) simp_all
  then have eq: "daily_weight_gain df ! i = daily_rate (weight_gain df ! i) 0"
    using assms(5) k by simp
  have "daily_weight_gain df ! i = fl_mul (fl_div (weight_gain df ! i) (Fin 0)) (Fin 7)"
    unfolding eq by (simp add: daily_rate_def)
  moreover note eq [unfolded daily_rate_zero_gap]
  ultimately show ?thesis by (rule conjI)
qed

theorem same_day_daily_rate_witness:
  "\<exists>df. import_weight_data [(0, Fin 4), (0, Fin (43 / 10))] = Inr df \<and>
        daily_weight_gain df ! 1 = fl_mul (fl_div (weight_gain df ! 1) (Fin 0)) (Fin 7) \<and>
        daily_weight_gain df ! 1 = PInf"
proof -
  obtain df where df: "import_weight_data [(0, Fin 4), (0, Fin (43 / 10))] = Inr df"
    using import_weight_data_Inr [of "[(0, Fin 4), (0, Fin (43 / 10))]"] by auto
  have days: "measurement_days df = [0, 0]" and gains: "weight_gain df = [NaN, Fin (3 / 10)]"
    using import_weight_data_columns [OF df]
    by (simp_all add: series_diff_def fl_sub_def)
  have s: "sorted (map fst [(0::int, Fin 4), (0, Fin (43 / 10))])" by simp
  have p: "(0::nat) < 1" by simp
  have l: "(1::nat) < length [(0::int, Fin 4), (0, Fin (43 / 10))]" by simp
  have g: "measurement_days df ! 1 - measurement_days df ! (1 - 1) = 0"
    by (simp add: days)
  note r = same_day_daily_rate [OF df s p l g]
  have "daily_weight_gain df ! 1 = PInf"
    using conjunct2 [OF r] by (simp add: gains)
  with df conjunct1 [OF r] show ?thesis by blast
qed

text \<open>
  Two samples on day 0 with the weights \<open>4.0\<close> and \<open>4.3\<close>: the daily rate of the second is
  \<open>+inf\<close>, which is neither the missing value nor the rate of the interval before.
\<close>

theorem same_day_counterexample:
  "import_weight_data [(0, Fin 4), (0, Fin (43 / 10))] =
     Inr \<lparr> date = [0, 0],
           measured_weight = [Fin 4, Fin (43 / 10)],
           life_days = [0, 0],
           measurement_days = [0, 0],
           weight_gain = [NaN, Fin (3 / 10)],
           daily_weight_gain = [NaN, PInf],
           weekly_weight_gain = [NaN, NaN] \<rparr> \<and>
   PInf \<noteq> NaN \<and> [NaN, PInf] ! 1 \<noteq> [NaN, PInf] ! 0"
  by (simp add: import_unfold upt_2 Let_def)

section \<open>The error function and the normal distribution function\<close>










lemma erf_series_0: "erf_series 0 = 0"
proof -
  have "(\<lambda>n. erf_coeff n * 0 ^ n) = (\<lambda>n. 0)"
  proof (rule ext)
    fix n show "erf_coeff n * 0 ^ n = 0"
      by (cases n) (simp_all add: erf_coeff_def)
  qed
  then show ?thesis by (simp only: erf_series_def suminf_zero)
qed


lemma std_normal_cdf_0: "std_normal_cdf 0 = 1 / 2"
  by (simp add: std_normal_cdf_def erf_def erf_series_0)


lemma ndtr_0: "ndtr 0 = 1 / 2"
  by (simp add: ndtr_def std_normal_cdf_0)


lemma ndtr_saturated: "9 \<le> z \<Longrightarrow> ndtr z = 1"
  by (simp add: ndtr_def)

section \<open>Reading the table and the last row\<close>

lemma iloc_last: "xs \<noteq> [] \<Longrightarrow> iloc xs (- 1) = Inr (last xs)"
  by (simp add: iloc_def Let_def last_conv_nth nat_diff_distrib' of_nat_diff)

lemma iloc_in_range:
  "0 \<le> k \<Longrightarrow> k < int (length xs) \<Longrightarrow> iloc xs k = Inr (xs ! nat k)"
  by (simp add: iloc_def Let_def)

lemma iloc_above: "int (length xs) \<le> k \<Longrightarrow> iloc xs k = Inl IndexError"
  by (simp add: iloc_def Let_def)

lemma iloc_below: "k < - int (length xs) \<Longrightarrow> iloc xs k = Inl IndexError"
  by (simp add: iloc_def Let_def)

lemma iloc_wrap:
  "- int (length xs) \<le> k \<Longrightarrow> k < 0 \<Longrightarrow> iloc xs k = Inr (xs ! nat (int (length xs) + k))"
  by (simp add: iloc_def Let_def)

lemma percentile_of_row:
  assumes "life_days df \<noteq> []" and "measured_weight df \<noteq> []"
    and "iloc growth (last (life_days df)) = Inr row"
  shows "calculate_child_percentiles growth df off =
         Inr (norm_cdf (last (measured_weight df)) (fl_add (SD0 row) off)
                (fl_sub (SD0 row) (SD1neg row)))"
  using assms by (simp add: calculate_child_percentiles_def iloc_last Let_def)

lemma percentile_lookup_error:
  assumes "life_days df \<noteq> []" and "iloc growth (last (life_days df)) = Inl e"
  shows "calculate_child_percentiles growth df off = Inl e"
  using assms by (simp add: calculate_child_percentiles_def iloc_last)

lemma fl_sub_self_not_pos: "\<not> fl_gt (fl_sub a a) (Fin 0)"
  by (cases a) (simp_all add: fl_sub_def)

lemma norm_cdf_scale_not_pos: "\<not> fl_gt scale (Fin 0) \<Longrightarrow> norm_cdf x loc scale = NaN"
  by (simp add: norm_cdf_def Let_def)

lemma norm_cdf_finite:
  "0 < s \<Longrightarrow> norm_cdf (Fin x) (Fin l) (Fin s) = Fin (ndtr ((x - l) / s))"
  by (simp add: norm_cdf_def Let_def fl_sub_def)

lemma import_last_columns:
  assumes "import_weight_data rows = Inr df"
  shows "life_days df \<noteq> []" and "measured_weight df \<noteq> []"
    and "last (life_days df) = fst (last rows) - fst (hd rows)"
    and "last (measured_weight df) = snd (last rows)"
  using import_weight_data_columns [OF assms] by (simp_all add: last_map)

section \<open>The percentile estimate\<close>

text \<open>
  Claim C8. For the single-sample series \<open>[(day 0, 4.0)]\<close>, a reference table whose row
  of day 0 has the mean \<open>4.0\<close> and the minus-one-SD landmark \<open>3.5\<close> (whatever its other
  landmarks and its further rows), and the offset \<open>0\<close>, the percentile is \<open>0.5\<close>: the
  weight equals the mean, and the normal distribution function is \<open>1/2\<close> at \<open>0\<close>.
\<close>

theorem single_sample_percentile:
  "\<exists>df. import_weight_data [(d, Fin 4)] = Inr df \<and>
     calculate_child_percentiles (row \<lparr> SD0 := Fin 4, SD1neg := Fin (7 / 2) \<rparr> # rest) df (Fin 0)
       = Inr (Fin (1 / 2))"
proof -
  obtain df where df: "import_weight_data [(d, Fin 4)] = Inr df"
    using import_weight_data_Inr [of "[(d, Fin 4)]"] by auto
  note cols = import_weight_data_columns [OF df]
  have days: "life_days df = [0]" and w: "measured_weight df = [Fin 4]"
    using cols by simp_all
  let ?row = "row \<lparr> SD0 := Fin 4, SD1neg := Fin (7 / 2) \<rparr>"
  have "calculate_child_percentiles (?row # rest) df (Fin 0) =
         Inr (norm_cdf (last (measured_weight df)) (fl_add (SD0 ?row) (Fin 0))
                (fl_sub (SD0 ?row) (SD1neg ?row)))"
    by (rule percentile_of_row) (simp_all add: days w iloc_def)
  also have "\<dots> = Inr (Fin (ndtr 0))"
    by (simp add: w fl_sub_def norm_cdf_def Let_def)
  finally show ?thesis using df by (simp add: ndtr_0)
qed

lemma percentile_of_last_sample:
  assumes "iloc growth (d - hd (map fst prefix @ [d])) = Inr row"
    and "SD0 row = Fin m" and "SD1neg row = Fin s" and "s < m"
  shows "\<exists>df. import_weight_data (prefix @ [(d, Fin v)]) = Inr df \<and>
           calculate_child_percentiles growth df (Fin c)
             = Inr (Fin (ndtr ((v - (m + c)) / (m - s))))"
proof -
  have pos: "0 < m - s" using assms(4) by simp
  obtain df where df: "import_weight_data (prefix @ [(d, Fin v)]) = Inr df"
    using import_weight_data_Inr [of "prefix @ [(d, Fin v)]"] by auto
  note l = import_last_columns [OF df]
  have age: "last (life_days df) = d - hd (map fst prefix @ [d])"
    by (cases prefix) (simp_all add: l(3))
  have "calculate_child_percentiles growth df (Fin c) =
       Inr (norm_cdf (last (measured_weight df)) (fl_add (SD0 row) (Fin c))
              (fl_sub (SD0 row) (SD1neg row)))"
    using l(1,2) assms(1) unfolding age [symmetric] by (rule percentile_of_row)
  also have "\<dots> = Inr (norm_cdf (Fin v) (Fin (m + c)) (Fin (m - s)))"
    by (simp add: assms(2,3) fl_sub_def l(4))
  finally show ?thesis using pos df by (simp only: norm_cdf_finite) blast
qed



text \<open>
  The weights \<open>10.0\<close> and \<open>11.0\<close> against a row with mean \<open>4.0\<close> and minus-one-SD \<open>3.5\<close>
  are 12 and 14 standard deviations above the mean: both percentiles are exactly \<open>1.0\<close>.
\<close>

lemma percentile_saturated:
  assumes "v = 10 \<or> v = 11"
  shows "\<exists>df. import_weight_data [(0, Fin v)] = Inr df \<and>
     calculate_child_percentiles
       [\<lparr> Day = 0, SD0 = Fin 4, SD1 = Fin 5, SD1neg = Fin (7 / 2), SD2 = Fin 6, SD2neg = Fin 2,
          SD3 = Fin 7, SD3neg = Fin 1 \<rparr>] df (Fin 0) = Inr (Fin 1)"
proof -
  let ?row0 = "\<lparr> Day = 0, SD0 = Fin 4, SD1 = Fin 5, SD1neg = Fin (7 / 2), SD2 = Fin 6, SD2neg = Fin 2,
          SD3 = Fin 7, SD3neg = Fin 1 \<rparr>"
  have r: "iloc [?row0] (0 - hd (map fst [] @ [0])) = Inr ?row0"
    by (simp add: iloc_def)
  have m: "SD0 ?row0 = Fin 4" and n: "SD1neg ?row0 = Fin (7 / 2)" by simp_all
  have l: "(7 / 2 :: real) < 4" by simp
  have "ndtr ((v - (4 + 0)) / (4 - 7 / 2)) = 1"
    using assms by (intro ndtr_saturated) auto
  then show ?thesis
    using percentile_of_last_sample [OF r m n l, where v = v and c = 0] by simp
qed

text \<open>
  Claim C5, as amended. For every derived series and reference table where the looked-up
  row has its mean equal to its minus-one-SD landmark, the percentile estimate does not
  fail: it returns \<open>NaN\<close>.
\<close>

theorem degenerate_scale_NaN:
  assumes "import_weight_data rows = Inr df" and "sorted (map fst rows)"
    and "iloc growth (last (life_days df)) = Inr row"
    and "SD0 row = SD1neg row"
  shows "calculate_child_percentiles growth df off = Inr NaN"
proof -
  note cols = import_weight_data_columns [OF assms(1)]
  have "life_days df \<noteq> []" and "measured_weight df \<noteq> []"
    using cols(1) by (simp_all add: cols(3,4))
  then have "calculate_child_percentiles growth df off =
         Inr (norm_cdf (last (measured_weight df)) (fl_add (SD0 row) off)
                (fl_sub (SD0 row) (SD1neg row)))"
    using assms(3) by (rule percentile_of_row)
  also have "norm_cdf (last (measured_weight df)) (fl_add (SD0 row) off)
                (fl_sub (SD0 row) (SD1neg row)) = NaN"
    unfolding assms(4) by (intro norm_cdf_scale_not_pos fl_sub_self_not_pos)
  finally show ?thesis .
qed

theorem degenerate_scale_NaN_witness:
  "\<exists>df. import_weight_data [(0, Fin 4)] = Inr df \<and>
     calculate_child_percentiles
       [\<lparr> Day = 0, SD0 = Fin 4, SD1 = Fin 5, SD1neg = Fin 4, SD2 = Fin 6, SD2neg = Fin 3,
           SD3 = Fin 7, SD3neg = Fin 2 \<rparr>] df (Fin 0) = Inr NaN"
proof -
  let ?row = "\<lparr> Day = 0, SD0 = Fin 4, SD1 = Fin 5, SD1neg = Fin 4, SD2 = Fin 6,
                 SD2neg = Fin 3, SD3 = Fin 7, SD3neg = Fin 2 \<rparr>"
  obtain df where df: "import_weight_data [(0, Fin 4)] = Inr df"
    using import_weight_data_Inr [of "[(0, Fin 4)]"] by auto
  have days: "life_days df = [0]"
    using import_weight_data_columns [OF df] by simp
  have s: "sorted (map fst [(0::int, Fin 4)])" by simp
  have r: "iloc [?row] (last (life_days df)) = Inr ?row"
    by (simp add: days iloc_def)
  have e: "SD0 ?row = SD1neg ?row" by simp
  have "calculate_child_percentiles [?row] df (Fin 0) = Inr NaN"
    using df s r e by (rule degenerate_scale_NaN)
  with df show ?thesis by blast
qed

text \<open>
  One sample of \<open>4.0\<close> on day 0 against a row with mean \<open>4.0\<close> and minus-one-SD \<open>4.0\<close>:
  the estimate is the value \<open>NaN\<close>, not an error.
\<close>

theorem degenerate_scale_counterexample:
  "import_weight_data [(0, Fin 4)] =
     Inr \<lparr> date = [0], measured_weight = [Fin 4], life_days = [0], measurement_days = [0],
           weight_gain = [NaN], daily_weight_gain = [NaN], weekly_weight_gain = [NaN] \<rparr> \<and>
   calculate_child_percentiles
     [\<lparr> Day = 0, SD0 = Fin 4, SD1 = Fin 5, SD1neg = Fin 4, SD2 = Fin 6, SD2neg = Fin 3,
         SD3 = Fin 7, SD3neg = Fin 2 \<rparr>]
     \<lparr> date = [0], measured_weight = [Fin 4], life_days = [0], measurement_days = [0],
       weight_gain = [NaN], daily_weight_gain = [NaN], weekly_weight_gain = [NaN] \<rparr>
     (Fin 0) = Inr NaN"
  by (simp add: import_unfold calculate_child_percentiles_def iloc_def norm_cdf_def Let_def)

text \<open>
  Claim C6, as amended. The lookup of an age in the reference table fails with
  \<open>IndexError\<close>, without extrapolating or clamping, for every age above the last
  populated age and for every age below minus the number of rows; a negative age \<open>-k\<close>
  with \<open>k\<close> at most the number of rows does not fail but reads the \<open>k\<close>-th row from the
  end. The percentile estimate propagates the \<open>IndexError\<close>.
\<close>

theorem growth_lookup_range:
  "(int (length growth) \<le> a \<or> a < - int (length growth) \<longrightarrow>
      iloc growth a = Inl IndexError) \<and>
   (- int (length growth) \<le> b \<and> b < 0 \<longrightarrow>
      iloc growth b = Inr (growth ! nat (int (length growth) + b))) \<and>
   (life_days df \<noteq> [] \<and>
    (int (length growth) \<le> last (life_days df) \<or> last (life_days df) < - int (length growth))
    \<longrightarrow> calculate_child_percentiles growth df off = Inl IndexError)"
proof (intro conjI impI)
  assume "int (length growth) \<le> a \<or> a < - int (length growth)"
  then show "iloc growth a = Inl IndexError"
    using iloc_above [of growth a] iloc_below [of a growth] by blast
next
  assume "- int (length growth) \<le> b \<and> b < 0"
  then show "iloc growth b = Inr (growth ! nat (int (length growth) + b))"
    by (simp add: iloc_wrap)
next
  assume h: "life_days df \<noteq> [] \<and>
    (int (length growth) \<le> last (life_days df) \<or> last (life_days df) < - int (length growth))"
  then have "iloc growth (last (life_days df)) = Inl IndexError"
    using iloc_above [of growth "last (life_days df)"] iloc_below [of "last (life_days df)" growth]
    by blast
  with h show "calculate_child_percentiles growth df off = Inl IndexError"
    by (simp add: percentile_lookup_error)
qed

theorem growth_lookup_range_witness:
  "\<exists>df. import_weight_data [(0, Fin 4), (3, Fin 5)] = Inr df \<and>
     iloc [\<lparr> Day = 0, SD0 = Fin 4, SD1 = Fin 5, SD1neg = Fin 3, SD2 = Fin 6, SD2neg = Fin 2,
          SD3 = Fin 7, SD3neg = Fin 1 \<rparr>,
           \<lparr> Day = 1, SD0 = Fin 4, SD1 = Fin 5, SD1neg = Fin (7 / 2), SD2 = Fin 6,
          SD2neg = Fin 3, SD3 = Fin 7, SD3neg = Fin 2 \<rparr>] 2 = Inl IndexError \<and>
     iloc [\<lparr> Day = 0, SD0 = Fin 4, SD1 = Fin 5, SD1neg = Fin 3, SD2 = Fin 6, SD2neg = Fin 2,
          SD3 = Fin 7, SD3neg = Fin 1 \<rparr>,
           \<lparr> Day = 1, SD0 = Fin 4, SD1 = Fin 5, SD1neg = Fin (7 / 2), SD2 = Fin 6,
          SD2neg = Fin 3, SD3 = Fin 7, SD3neg = Fin 2 \<rparr>] (- 1) =
       Inr \<lparr> Day = 1, SD0 = Fin 4, SD1 = Fin 5, SD1neg = Fin (7 / 2), SD2 = Fin 6,
          SD2neg = Fin 3, SD3 = Fin 7, SD3neg = Fin 2 \<rparr> \<and>
     calculate_child_percentiles
       [\<lparr> Day = 0, SD0 = Fin 4, SD1 = Fin 5, SD1neg = Fin 3, SD2 = Fin 6, SD2neg = Fin 2,
          SD3 = Fin 7, SD3neg = Fin 1 \<rparr>,
        \<lparr> Day = 1, SD0 = Fin 4, SD1 = Fin 5, SD1neg = Fin (7 / 2), SD2 = Fin 6,
          SD2neg = Fin 3, SD3 = Fin 7, SD3neg = Fin 2 \<rparr>] df (Fin 0) = Inl IndexError"
proof -
  let ?row0 = "\<lparr> Day = 0, SD0 = Fin 4, SD1 = Fin 5, SD1neg = Fin 3, SD2 = Fin 6, SD2neg = Fin 2,
          SD3 = Fin 7, SD3neg = Fin 1 \<rparr>"
  let ?row1 = "\<lparr> Day = 1, SD0 = Fin 4, SD1 = Fin 5, SD1neg = Fin (7 / 2), SD2 = Fin 6,
          SD2neg = Fin 3, SD3 = Fin 7, SD3neg = Fin 2 \<rparr>"
  obtain df where df: "import_weight_data [(0, Fin 4), (3, Fin 5)] = Inr df"
    using import_weight_data_Inr [of "[(0, Fin 4), (3, Fin 5)]"] by auto
  have days: "life_days df = [0, 3]"
    using import_weight_data_columns [OF df] by simp
  show ?thesis
    using growth_lookup_range [of "[?row0, ?row1]" 2 "- 1" df "Fin 0"] df
    by (simp add: days)
qed

text \<open>In a table of two rows the age \<open>-1\<close> reads the last row.\<close>

theorem negative_age_counterexample:
  "iloc [\<lparr> Day = 0, SD0 = Fin 4, SD1 = Fin 5, SD1neg = Fin 3, SD2 = Fin 6, SD2neg = Fin 2,
           SD3 = Fin 7, SD3neg = Fin 1 \<rparr>,
         \<lparr> Day = 1, SD0 = Fin 5, SD1 = Fin 6, SD1neg = Fin 4, SD2 = Fin 7, SD2neg = Fin 3,
           SD3 = Fin 8, SD3neg = Fin 2 \<rparr>] (- 1) =
     Inr \<lparr> Day = 1, SD0 = Fin 5, SD1 = Fin 6, SD1neg = Fin 4, SD2 = Fin 7, SD2neg = Fin 3,
           SD3 = Fin 8, SD3neg = Fin 2 \<rparr>"
  by (simp add: iloc_def)

end
